theory Spec2Isabelle
  imports Complex_Main
begin

section \<open>Data model of the view (src/src/App.tsx)\<close>

text \<open>
  The interfaces of App.tsx. The field \<open>id\<close> of \<open>QualityOption\<close> is written \<open>id_q\<close> and the
  field \<open>type\<close> of \<open>LogMessage\<close> is written \<open>type_l\<close>; the payload records carry a prefix
  where their field names would clash with the fields of the state.
  The source casts \<open>message_type\<close> to the union "stdout" | "stderr" without a run-time
  check, so the field is a string here as well.
\<close>

record QualityOption =
  id_q :: string
  label :: string
  format_type :: string

record LogMessage =
  type_l :: string
  message :: string

record BackendLogMessage =
  message_type :: string
  payload_message :: string

text \<open>
  The payload of a download-progress event, \<open>{ progress: number; status: string }\<close>.
  The number is only stored and compared, never computed with.
\<close>

record ProgressPayload =
  payload_progress :: real
  payload_status :: string

text \<open>The ten \<open>useState\<close> cells of \<open>App\<close>; \<open>null\<close> of \<open>downloadPath\<close> is \<open>None\<close>.\<close>

record AppState =
  url :: string
  format :: string
  quality :: string
  isDownloading :: bool
  isFetchingInfo :: bool
  progress :: real
  downloadPath :: "string option"
  availableQualities :: "QualityOption list"
  logs :: "LogMessage list"
  isLogViewerOpen :: bool

definition initial_state :: AppState where
  "initial_state =
     \<lparr> url = [], format = ''video+audio'', quality = ''best'',
       isDownloading = False, isFetchingInfo = False, progress = 0,
       downloadPath = None, availableQualities = [], logs = [],
       isLogViewerOpen = False \<rparr>"

section \<open>The world around the state: bridge calls, notifications, subscriptions\<close>

text \<open>
  The argument record of \<open>invoke("download_media", {url, format, quality, downloadPath})\<close>.
  A \<open>null\<close> download path is \<open>None\<close>.
\<close>

record DownloadRequest =
  req_url :: string
  req_format :: string
  req_quality :: string
  req_downloadPath :: "string option"

datatype command =
    Get_video_info string
  | Download_media DownloadRequest

text \<open>
  What the handlers do to the outside, in the order in which they do it: toasts, console
  output, bridge commands, calls of \<open>listen\<close> and of the returned \<open>unlisten\<close> function
  (identified by the subscription it releases).
\<close>

datatype effect =
    Toast_error string
  | Toast_success string
  | Console_error string
  | Invoke command
  | Listen string
  | Unlisten nat

text \<open>
  A world is the state of the view, the effects so far (oldest first), the active
  subscriptions of the event API (identifier and channel) and the next free identifier.
\<close>

record World =
  app :: AppState
  effects :: "effect list"
  subs :: "(nat \<times> string) list"
  next_id :: nat

datatype event =
    DownloadLog BackendLogMessage
  | DownloadProgress ProgressPayload

text \<open>
  How an awaited promise settles. A rejection carries the error as the string that the
  template literal \<open>`${error}`\<close> makes of it.
\<close>

datatype 'a settled = Resolved 'a | Rejected string

definition emit :: "effect \<Rightarrow> World \<Rightarrow> World" where
  "emit e w = w\<lparr>effects := effects w @ [e]\<rparr>"

definition setUrl :: "string \<Rightarrow> World \<Rightarrow> World" where
  "setUrl v w = w\<lparr>app := (app w)\<lparr>url := v\<rparr>\<rparr>"

definition setFormat :: "string \<Rightarrow> World \<Rightarrow> World" where
  "setFormat v w = w\<lparr>app := (app w)\<lparr>format := v\<rparr>\<rparr>"

definition setQuality :: "string \<Rightarrow> World \<Rightarrow> World" where
  "setQuality v w = w\<lparr>app := (app w)\<lparr>quality := v\<rparr>\<rparr>"

definition setIsDownloading :: "bool \<Rightarrow> World \<Rightarrow> World" where
  "setIsDownloading v w = w\<lparr>app := (app w)\<lparr>isDownloading := v\<rparr>\<rparr>"

definition setIsFetchingInfo :: "bool \<Rightarrow> World \<Rightarrow> World" where
  "setIsFetchingInfo v w = w\<lparr>app := (app w)\<lparr>isFetchingInfo := v\<rparr>\<rparr>"

definition setProgress :: "real \<Rightarrow> World \<Rightarrow> World" where
  "setProgress v w = w\<lparr>app := (app w)\<lparr>progress := v\<rparr>\<rparr>"

definition setDownloadPath :: "string option \<Rightarrow> World \<Rightarrow> World" where
  "setDownloadPath v w = w\<lparr>app := (app w)\<lparr>downloadPath := v\<rparr>\<rparr>"

definition setAvailableQualities :: "QualityOption list \<Rightarrow> World \<Rightarrow> World" where
  "setAvailableQualities v w = w\<lparr>app := (app w)\<lparr>availableQualities := v\<rparr>\<rparr>"

definition setLogs :: "LogMessage list \<Rightarrow> World \<Rightarrow> World" where
  "setLogs v w = w\<lparr>app := (app w)\<lparr>logs := v\<rparr>\<rparr>"

definition setIsLogViewerOpen :: "bool \<Rightarrow> World \<Rightarrow> World" where
  "setIsLogViewerOpen v w = w\<lparr>app := (app w)\<lparr>isLogViewerOpen := v\<rparr>\<rparr>"

subsection \<open>The two event handlers\<close>

text \<open>
  Line 52: \<open>setLogs((prev) => [...prev, { type: event.payload.message_type, message:
  event.payload.message }])\<close>, and line 93: \<open>setProgress(event.payload.progress)\<close>.
\<close>

definition toLogMessage :: "BackendLogMessage \<Rightarrow> LogMessage" where
  "toLogMessage p = \<lparr> type_l = message_type p, message = payload_message p \<rparr>"

definition on_download_log :: "BackendLogMessage \<Rightarrow> AppState \<Rightarrow> AppState" where
  "on_download_log p s = s\<lparr>logs := logs s @ [toLogMessage p]\<rparr>"

definition on_download_progress :: "ProgressPayload \<Rightarrow> AppState \<Rightarrow> AppState" where
  "on_download_progress p s = s\<lparr>progress := payload_progress p\<rparr>"

text \<open>
  The event API calls, for an emitted event, the handler of every subscription on the
  event's channel. The view registers one handler per channel, so the channel of a
  subscription determines its handler.
\<close>

fun dispatch :: "event \<Rightarrow> nat \<times> string \<Rightarrow> AppState \<Rightarrow> AppState" where
  "dispatch (DownloadLog p) (i, ch) s =
     (if ch = ''download-log'' then on_download_log p s else s)"
| "dispatch (DownloadProgress p) (i, ch) s =
     (if ch = ''download-progress'' then on_download_progress p s else s)"

definition deliver :: "event \<Rightarrow> World \<Rightarrow> World" where
  "deliver ev w = w\<lparr>app := fold (dispatch ev) (subs w) (app w)\<rparr>"

definition deliver_all :: "event list \<Rightarrow> World \<Rightarrow> World" where
  "deliver_all evs w = fold deliver evs w"

text \<open>
  A resolved \<open>listen\<close> has added a subscription under a fresh identifier; the function it
  returns removes that subscription.
\<close>

definition subscribe :: "string \<Rightarrow> World \<Rightarrow> World" where
  "subscribe ch w =
     w\<lparr>subs := subs w @ [(next_id w, ch)], next_id := Suc (next_id w)\<rparr>"

definition unlisten :: "nat \<Rightarrow> World \<Rightarrow> World" where
  "unlisten i w =
     (emit (Unlisten i) w)\<lparr>subs := filter (\<lambda>(j, ch). j \<noteq> i) (subs w)\<rparr>"

text \<open>The effect of lines 50 to 58: on mount the view subscribes to the log channel.\<close>

definition mount :: "World \<Rightarrow> World" where
  "mount w = subscribe ''download-log'' (emit (Listen ''download-log'') w)"

definition initial_world :: World where
  "initial_world = \<lparr> app = initial_state, effects = [], subs = [], next_id = 0 \<rparr>"

section \<open>handleFetchVideoInfo (lines 60 to 77)\<close>

text \<open>
  While the handler awaits the bridge, the event loop may deliver events; the
  environment of one call says which, and how the command settles.
\<close>

record fetch_env =
  fetch_during :: "event list"
  fetch_result :: "QualityOption list settled"

text \<open>
  The world in which the handler waits for \<open>get_video_info\<close> to settle (lines 66 to 68).
\<close>

definition handleFetchVideoInfo_pending :: "World \<Rightarrow> fetch_env \<Rightarrow> World" where
  "handleFetchVideoInfo_pending w env =
     deliver_all (fetch_during env)
       (emit (Invoke (Get_video_info (url (app w)))) (setIsFetchingInfo True w))"

definition handleFetchVideoInfo :: "World \<Rightarrow> fetch_env \<Rightarrow> World" where
  "handleFetchVideoInfo w env =
     (if url (app w) = [] then emit (Toast_error ''Please enter a YouTube URL'') w
      else
        setIsFetchingInfo False
          (case fetch_result env of
             Resolved qualities \<Rightarrow>
               emit (Toast_success ''Video info fetched successfully!'')
                 (setAvailableQualities qualities (handleFetchVideoInfo_pending w env))
           | Rejected e \<Rightarrow>
               emit (Toast_error (''Failed to fetch video info: '' @ e))
                 (emit (Console_error e) (handleFetchVideoInfo_pending w env))))"

section \<open>handleDownload (lines 79 to 113)\<close>

text \<open>
  The handler has two awaits: of \<open>listen\<close> and of \<open>invoke\<close>. The subscription is taken to
  be active from the call of \<open>listen\<close> when that call resolves. When it rejects, the
  handler ends there with an unhandled rejection: nothing after line 95 runs.
\<close>

record download_env =
  during_listen :: "event list"
  listen_result :: "unit settled"
  during_invoke :: "event list"
  invoke_result :: "unit settled"

text \<open>Lines 85 to 90, up to the call of \<open>listen\<close>.\<close>

definition handleDownload_start :: "World \<Rightarrow> World" where
  "handleDownload_start w =
     emit (Listen ''download-progress'')
       (setLogs [] (setProgress 0 (setIsDownloading True w)))"

text \<open>The request of lines 98 to 103, from the values the handler closed over.\<close>

definition download_request :: "AppState \<Rightarrow> DownloadRequest" where
  "download_request s =
     \<lparr> req_url = url s, req_format = format s, req_quality = quality s,
       req_downloadPath = downloadPath s \<rparr>"

text \<open>
  The object literal of lines 98 to 103 as the bridge receives it: its four keys in the
  order written, each with its value. The key \<open>downloadPath\<close> is always written; a
  download path that was never chosen is the value \<open>null\<close> under that key.
\<close>

datatype js_value = JString string | JNull

definition request_object :: "DownloadRequest \<Rightarrow> (string \<times> js_value) list" where
  "request_object r =
     [(''url'', JString (req_url r)),
      (''format'', JString (req_format r)),
      (''quality'', JString (req_quality r)),
      (''downloadPath'',
         (case req_downloadPath r of None \<Rightarrow> JNull | Some p \<Rightarrow> JString p))]"

text \<open>
  The world in which the handler waits for \<open>download_media\<close> to settle: the command is
  issued, and the events of both awaits have been delivered.
\<close>

definition handleDownload_pending :: "World \<Rightarrow> download_env \<Rightarrow> World" where
  "handleDownload_pending w env =
     deliver_all (during_invoke env)
       (emit (Invoke (Download_media (download_request (app w))))
          (deliver_all (during_listen env)
             (subscribe ''download-progress'' (handleDownload_start w))))"

text \<open>Lines 104 to 111: the branch of the settlement, then the \<open>finally\<close> block.\<close>

definition handleDownload_settle :: "nat \<Rightarrow> unit settled \<Rightarrow> World \<Rightarrow> World" where
  "handleDownload_settle sid r w =
     unlisten sid
       (setIsDownloading False
          (case r of
             Resolved _ \<Rightarrow>
               setProgress 100 (emit (Toast_success ''Download started successfully!'') w)
           | Rejected e \<Rightarrow>
               emit (Toast_error (''Failed to start download: '' @ e))
                 (emit (Console_error e) w)))"

definition handleDownload :: "World \<Rightarrow> download_env \<Rightarrow> World" where
  "handleDownload w env =
     (if url (app w) = [] then emit (Toast_error ''Please enter a YouTube URL'') w
      else
        (case listen_result env of
           Rejected e \<Rightarrow> deliver_all (during_listen env) (handleDownload_start w)
         | Resolved _ \<Rightarrow>
             handleDownload_settle (next_id w) (invoke_result env)
               (handleDownload_pending w env)))"

section \<open>The quality selector (lines 203 to 224)\<close>

text \<open>The items of the Select: value and displayed text of each.\<close>

definition quality_items :: "AppState \<Rightarrow> (string \<times> string) list" where
  "quality_items s =
     (if length (availableQualities s) > 0
      then map (\<lambda>q. (id_q q, label q)) (availableQualities s)
      else [(''best'', ''Best Available''), (''worst'', ''Lowest Available'')])"

definition quality_options :: "AppState \<Rightarrow> string list" where
  "quality_options s = map fst (quality_items s)"

section \<open>The view as a machine of user actions and events\<close>

text \<open>
  What can happen to a mounted view: the inputs change a field, the folder button
  stores a non-empty selection (line 178), the two action buttons run their handlers
  unless disabled (lines 149 and 230), and the event relay emits.
\<close>

datatype action =
    ChangeUrl string
  | ChangeFormat string
  | ChangeQuality string
  | ChooseFolder "string option"
  | OpenLogViewer bool
  | ClickFetch fetch_env
  | ClickDownload download_env
  | Emitted event

fun step :: "action \<Rightarrow> World \<Rightarrow> World" where
  "step (ChangeUrl v) w = setUrl v w"
| "step (ChangeFormat v) w = setFormat v w"
| "step (ChangeQuality v) w = setQuality v w"
| "step (ChooseFolder sel) w =
     (case sel of
        None \<Rightarrow> w
      | Some p \<Rightarrow> if p = [] then w else setDownloadPath (Some p) w)"
| "step (OpenLogViewer b) w = setIsLogViewerOpen b w"
| "step (ClickFetch env) w =
     (if isFetchingInfo (app w) then w else handleFetchVideoInfo w env)"
| "step (ClickDownload env) w =
     (if isDownloading (app w) then w else handleDownload w env)"
| "step (Emitted ev) w = deliver ev w"

definition run :: "action list \<Rightarrow> World \<Rightarrow> World" where
  "run acts w = fold step acts w"

section \<open>Observations on event sequences\<close>

text \<open>
  The log payloads and the progress values of a sequence of events, in order; the
  number of subscriptions on each channel; what \<open>n\<close> log subscriptions append for a
  sequence of events, and the progress value that \<open>n\<close> progress subscriptions leave.
\<close>

fun log_payloads :: "event list \<Rightarrow> BackendLogMessage list" where
  "log_payloads [] = []"
| "log_payloads (DownloadLog p # evs) = p # log_payloads evs"
| "log_payloads (DownloadProgress p # evs) = log_payloads evs"

fun progress_values :: "event list \<Rightarrow> real list" where
  "progress_values [] = []"
| "progress_values (DownloadLog p # evs) = progress_values evs"
| "progress_values (DownloadProgress p # evs) = payload_progress p # progress_values evs"

definition log_subscribers :: "World \<Rightarrow> nat" where
  "log_subscribers w = length (filter (\<lambda>(i, ch). ch = ''download-log'') (subs w))"

definition progress_subscribers :: "World \<Rightarrow> nat" where
  "progress_subscribers w = length (filter (\<lambda>(i, ch). ch = ''download-progress'') (subs w))"

definition appended_logs :: "nat \<Rightarrow> event list \<Rightarrow> LogMessage list" where
  "appended_logs n evs = concat (map (\<lambda>p. replicate n (toLogMessage p)) (log_payloads evs))"

definition latest_progress :: "nat \<Rightarrow> real \<Rightarrow> event list \<Rightarrow> real" where
  "latest_progress n old evs = (if n = 0 then old else last (old # progress_values evs))"

text \<open>
  The effects that a handler adds to a world, and those among them that are bridge
  commands.
\<close>

definition new_effects :: "World \<Rightarrow> World \<Rightarrow> effect list" where
  "new_effects w w' = drop (length (effects w)) (effects w')"

definition is_invoke :: "effect \<Rightarrow> bool" where
  "is_invoke x = (case x of Invoke c \<Rightarrow> True | _ \<Rightarrow> False)"

text \<open>Every subscription has an identifier that \<open>listen\<close> has already handed out.\<close>

definition fresh_ids :: "World \<Rightarrow> bool" where
  "fresh_ids w = list_all (\<lambda>(i, ch). i < next_id w) (subs w)"

section \<open>The history of fetches\<close>

text \<open>
  A click on the fetch button issues \<open>get_video_info\<close> when the button is enabled and
  the URL is not empty. \<open>last_fetched\<close> follows a run of the view and keeps the sequence
  that the last issued and resolved \<open>get_video_info\<close> returned; \<open>None\<close> when there was
  no such command.
\<close>

definition fetch_issued :: "World \<Rightarrow> bool" where
  "fetch_issued w = (\<not> isFetchingInfo (app w) \<and> url (app w) \<noteq> [])"

fun last_fetched ::
  "action list \<Rightarrow> World \<Rightarrow> QualityOption list option \<Rightarrow> QualityOption list option" where
  "last_fetched [] w acc = acc"
| "last_fetched (ClickFetch env # acts) w acc =
     last_fetched acts (step (ClickFetch env) w)
       (case fetch_result env of
          Resolved qs \<Rightarrow> if fetch_issued w then Some qs else acc
        | Rejected e \<Rightarrow> acc)"
| "last_fetched (a # acts) w acc = last_fetched acts (step a w) acc"

section \<open>The scenarios of section 8 of the specification\<close>

definition scenario_url :: string where
  "scenario_url = ''https://www.youtube.com/watch?v=abc123''"

definition scenario_qualities :: "QualityOption list" where
  "scenario_qualities =
     [\<lparr> id_q = ''137'', label = ''1080p'', format_type = ''video'' \<rparr>,
      \<lparr> id_q = ''140'', label = ''128kbps'', format_type = ''audio'' \<rparr>]"

text \<open>A mounted view into which the user has typed the URL.\<close>

definition scenario_world :: World where
  "scenario_world = setUrl scenario_url (mount initial_world)"

text \<open>
  A download whose launch succeeds, with one log line before the command is issued and
  a progress value and a second log line while it is pending; and a download whose
  launch is refused, with no event at all.
\<close>

definition scenario_download_ok :: download_env where
  "scenario_download_ok =
     \<lparr> during_listen =
         [DownloadLog \<lparr> message_type = ''stdout'', payload_message = ''starting'' \<rparr>],
       listen_result = Resolved (),
       during_invoke =
         [DownloadProgress \<lparr> payload_progress = 42, payload_status = ''downloading'' \<rparr>,
          DownloadLog \<lparr> message_type = ''stderr'', payload_message = ''warning'' \<rparr>],
       invoke_result = Resolved () \<rparr>"

definition scenario_download_fail :: download_env where
  "scenario_download_fail =
     \<lparr> during_listen = [], listen_result = Resolved (),
       during_invoke = [], invoke_result = Rejected ''tool not found'' \<rparr>"

text \<open>
  A download for which the call of \<open>listen\<close> is refused. The format "audio" and the
  quality "140" selected with no download path chosen: in the view with the URL
  typed in, and in the view whose URL field is still empty.
\<close>

definition scenario_listen_refused :: download_env where
  "scenario_listen_refused =
     \<lparr> during_listen = [], listen_result = Rejected ''listen refused'',
       during_invoke = [], invoke_result = Resolved () \<rparr>"

definition scenario_audio_world :: World where
  "scenario_audio_world = setQuality ''140'' (setFormat ''audio'' scenario_world)"

definition scenario_audio_no_url :: World where
  "scenario_audio_no_url = setQuality ''140'' (setFormat ''audio'' (mount initial_world))"

text \<open>
  A fetch that returns the two options of the scenario, and a fetch that is refused.
\<close>

definition scenario_fetch_ok :: fetch_env where
  "scenario_fetch_ok = \<lparr> fetch_during = [], fetch_result = Resolved scenario_qualities \<rparr>"

definition scenario_fetch_fail :: fetch_env where
  "scenario_fetch_fail = \<lparr> fetch_during = [], fetch_result = Rejected ''network down'' \<rparr>"

section \<open>Properties of event delivery\<close>

lemmas setters =
  emit_def setUrl_def setFormat_def setQuality_def setIsDownloading_def
  setIsFetchingInfo_def setProgress_def setDownloadPath_def setAvailableQualities_def
  setLogs_def setIsLogViewerOpen_def

lemma fold_dispatch_log:
  "fold (dispatch (DownloadLog p)) ss s =
     s\<lparr>logs := logs s @ replicate (length (filter (\<lambda>(i, ch). ch = ''download-log'') ss)) (toLogMessage p)\<rparr>"
proof (induction ss arbitrary: s)
  case Nil
  then show ?case by simp
next
  case (Cons a ss)
  obtain i ch where a: "a = (i, ch)" by (cases a)
  show ?case
    by (simp add: a Cons.IH on_download_log_def replicate_app_Cons_same)
qed

lemma fold_dispatch_progress:
  "fold (dispatch (DownloadProgress p)) ss s =
     (if length (filter (\<lambda>(i, ch). ch = ''download-progress'') ss) = 0 then s
      else s\<lparr>progress := payload_progress p\<rparr>)"
proof (induction ss arbitrary: s)
  case Nil
  then show ?case by simp
next
  case (Cons a ss)
  obtain i ch where a: "a = (i, ch)" by (cases a)
  show ?case
    by (simp add: a Cons.IH on_download_progress_def)
qed

lemma deliver_all_Nil: "deliver_all [] w = w"
  by (simp add: deliver_all_def)

lemma deliver_all_Cons: "deliver_all (ev # evs) w = deliver_all evs (deliver ev w)"
  by (simp add: deliver_all_def)

lemma deliver_char:
  "deliver ev w =
     w\<lparr>app := (app w)\<lparr>logs := logs (app w) @ appended_logs (log_subscribers w) [ev],
                       progress := latest_progress (progress_subscribers w) (progress (app w)) [ev]\<rparr>\<rparr>"
  by (cases ev)
     (simp_all add: deliver_def fold_dispatch_log fold_dispatch_progress appended_logs_def
        latest_progress_def log_subscribers_def progress_subscribers_def)

lemma appended_logs_Cons:
  "appended_logs n (ev # evs) = appended_logs n [ev] @ appended_logs n evs"
  by (cases ev) (simp_all add: appended_logs_def)

lemma latest_progress_Cons:
  "latest_progress n old (ev # evs) = latest_progress n (latest_progress n old [ev]) evs"
  by (cases ev) (simp_all add: latest_progress_def)

lemma deliver_all_char:
  "deliver_all evs w =
     w\<lparr>app := (app w)\<lparr>logs := logs (app w) @ appended_logs (log_subscribers w) evs,
                       progress := latest_progress (progress_subscribers w) (progress (app w)) evs\<rparr>\<rparr>"
proof (induction evs arbitrary: w)
  case Nil
  show ?case by (simp add: deliver_all_Nil appended_logs_def latest_progress_def)
next
  case (Cons ev evs)
  have s: "log_subscribers (deliver ev w) = log_subscribers w"
          "progress_subscribers (deliver ev w) = progress_subscribers w"
    by (simp_all add: deliver_def log_subscribers_def progress_subscribers_def)
  have "deliver_all (ev # evs) w = deliver_all evs (deliver ev w)"
    by (rule deliver_all_Cons)
  also have "\<dots> = (deliver ev w)\<lparr>app := (app (deliver ev w))
      \<lparr>logs := logs (app (deliver ev w)) @ appended_logs (log_subscribers w) evs,
       progress := latest_progress (progress_subscribers w)
                     (progress (app (deliver ev w))) evs\<rparr>\<rparr>"
    by (simp only: Cons.IH s)
  also have "\<dots> = w\<lparr>app := (app w)
      \<lparr>logs := logs (app w) @ appended_logs (log_subscribers w) (ev # evs),
       progress := latest_progress (progress_subscribers w) (progress (app w)) (ev # evs)\<rparr>\<rparr>"
    by (simp add: deliver_char appended_logs_Cons [of _ ev evs]
          latest_progress_Cons [of _ _ ev evs])
  finally show ?case .
qed


lemma log_payloads_append: "log_payloads (xs @ ys) = log_payloads xs @ log_payloads ys"
  by (induction xs rule: log_payloads.induct) simp_all

lemma progress_values_append:
  "progress_values (xs @ ys) = progress_values xs @ progress_values ys"
  by (induction xs rule: progress_values.induct) simp_all

lemma appended_logs_append:
  "appended_logs n (xs @ ys) = appended_logs n xs @ appended_logs n ys"
  by (simp add: appended_logs_def log_payloads_append)

lemma appended_logs_one: "appended_logs (Suc 0) evs = map toLogMessage (log_payloads evs)"
  by (induction evs rule: log_payloads.induct) (simp_all add: appended_logs_def)

lemma handleDownload_start_fields:
  "app (handleDownload_start w) = (app w)\<lparr>isDownloading := True, progress := 0, logs := []\<rparr>"
  "effects (handleDownload_start w) = effects w @ [Listen ''download-progress'']"
  "subs (handleDownload_start w) = subs w"
  "next_id (handleDownload_start w) = next_id w"
  by (simp_all add: handleDownload_start_def setters)

lemma handleDownload_pending_char:
  "handleDownload_pending w env =
     w\<lparr>app := (app w)\<lparr>isDownloading := True,
            progress := last (0 # progress_values (during_listen env @ during_invoke env)),
            logs := appended_logs (log_subscribers w) (during_listen env @ during_invoke env)\<rparr>,
       effects := effects w @ [Listen ''download-progress'',
                    Invoke (Download_media (download_request (app w)))],
       subs := subs w @ [(next_id w, ''download-progress'')],
       next_id := Suc (next_id w)\<rparr>"
  by (simp add: handleDownload_pending_def deliver_all_char handleDownload_start_fields
        subscribe_def emit_def log_subscribers_def progress_subscribers_def
        latest_progress_def appended_logs_append progress_values_append)

lemma appended_logs_Nil: "appended_logs n [] = []"
  by (simp add: appended_logs_def)

lemma latest_progress_Nil: "latest_progress n old [] = old"
  by (simp add: latest_progress_def)

section \<open>The handlers in closed form\<close>

lemma handleDownload_settle_char:
  "handleDownload_settle sid r w =
     w\<lparr>app := (app w)\<lparr>isDownloading := False,
            progress := (case r of Resolved _ \<Rightarrow> 100 | Rejected e \<Rightarrow> progress (app w))\<rparr>,
       effects := effects w @
          (case r of
             Resolved _ \<Rightarrow> [Toast_success ''Download started successfully!'']
           | Rejected e \<Rightarrow> [Console_error e, Toast_error (''Failed to start download: '' @ e)])
          @ [Unlisten sid],
       subs := filter (\<lambda>(j, ch). j \<noteq> sid) (subs w)\<rparr>"
  by (cases r) (simp_all add: handleDownload_settle_def unlisten_def setters)

lemma handleDownload_resolved:
  "url (app w) \<noteq> [] \<Longrightarrow> listen_result env = Resolved u \<Longrightarrow>
     handleDownload w env =
       handleDownload_settle (next_id w) (invoke_result env) (handleDownload_pending w env)"
  by (simp add: handleDownload_def)

lemma handleDownload_invokes:
  "url (app w) \<noteq> [] \<Longrightarrow> listen_result env = Resolved u \<Longrightarrow>
     filter is_invoke (new_effects w (handleDownload w env)) =
       [Invoke (Download_media (download_request (app w)))]"
  by (cases "invoke_result env")
     (simp_all add: handleDownload_resolved handleDownload_settle_char
        handleDownload_pending_char is_invoke_def new_effects_def)

lemma handleFetchVideoInfo_pending_char:
  "handleFetchVideoInfo_pending w env =
     w\<lparr>app := (app (deliver_all (fetch_during env) w))\<lparr>isFetchingInfo := True\<rparr>,
       effects := effects w @ [Invoke (Get_video_info (url (app w)))]\<rparr>"
  by (simp add: handleFetchVideoInfo_pending_def deliver_all_char setters
        log_subscribers_def progress_subscribers_def)

lemma handleFetchVideoInfo_char:
  "url (app w) \<noteq> [] \<Longrightarrow>
     handleFetchVideoInfo w env =
       w\<lparr>app := (case fetch_result env of
                  Resolved qs \<Rightarrow>
                    (app (deliver_all (fetch_during env) w))
                      \<lparr>isFetchingInfo := False, availableQualities := qs\<rparr>
                | Rejected e \<Rightarrow>
                    (app (deliver_all (fetch_during env) w))\<lparr>isFetchingInfo := False\<rparr>),
         effects := effects w @ Invoke (Get_video_info (url (app w))) #
            (case fetch_result env of
               Resolved qs \<Rightarrow> [Toast_success ''Video info fetched successfully!'']
             | Rejected e \<Rightarrow>
                 [Console_error e, Toast_error (''Failed to fetch video info: '' @ e)])\<rparr>"
  by (cases "fetch_result env")
     (simp_all add: handleFetchVideoInfo_def handleFetchVideoInfo_pending_char setters)

lemma handleFetchVideoInfo_subs:
  "subs (handleFetchVideoInfo w env) = subs w"
  "next_id (handleFetchVideoInfo w env) = next_id w"
proof -
  show "subs (handleFetchVideoInfo w env) = subs w"
  proof (cases "url (app w) = []")
    case True
    then show ?thesis by (simp add: handleFetchVideoInfo_def emit_def)
  next
    case False
    then show ?thesis by (simp add: handleFetchVideoInfo_char)
  qed
  show "next_id (handleFetchVideoInfo w env) = next_id w"
  proof (cases "url (app w) = []")
    case True
    then show ?thesis by (simp add: handleFetchVideoInfo_def emit_def)
  next
    case False
    then show ?thesis by (simp add: handleFetchVideoInfo_char)
  qed
qed

lemma filter_fresh:
  "list_all (\<lambda>(i, ch). i < n) ss \<Longrightarrow> filter (\<lambda>(j, ch). j \<noteq> (n::nat)) ss = ss"
  by (induction ss) auto

lemma handleDownload_subs:
  "fresh_ids w \<Longrightarrow> subs (handleDownload w env) = subs w"
  "next_id w \<le> next_id (handleDownload w env)"
proof -
  show "next_id w \<le> next_id (handleDownload w env)"
    by (cases "listen_result env")
       (simp_all add: handleDownload_def emit_def deliver_all_char
          handleDownload_start_fields handleDownload_settle_char handleDownload_pending_char)
  assume "fresh_ids w"
  then show "subs (handleDownload w env) = subs w"
    by (cases "listen_result env")
       (simp_all add: handleDownload_def emit_def deliver_all_char fresh_ids_def
          handleDownload_start_fields handleDownload_settle_char handleDownload_pending_char
          filter_fresh)
qed

lemma step_subs:
  "fresh_ids w \<Longrightarrow> subs (step a w) = subs w"
  "next_id w \<le> next_id (step a w)"
  by (cases a; simp add: setters deliver_def handleFetchVideoInfo_subs handleDownload_subs
        split: option.split)+

lemma step_fresh: "fresh_ids w \<Longrightarrow> fresh_ids (step a w)"
proof -
  assume f: "fresh_ids w"
  have "list_all (\<lambda>(i, ch). i < next_id (step a w)) (subs w)"
    using f step_subs(2) [of w a]
    by (auto simp: fresh_ids_def list_all_iff)
  then show ?thesis
    by (simp add: fresh_ids_def step_subs(1) [OF f])
qed

lemma run_Nil: "run [] w = w"
  by (simp add: run_def)

lemma run_Cons: "run (a # acts) w = run acts (step a w)"
  by (simp add: run_def)

lemma run_subs: "fresh_ids w \<Longrightarrow> subs (run acts w) = subs w"
  by (induction acts arbitrary: w) (simp_all add: run_Nil run_Cons step_subs(1) step_fresh)

lemma deliver_availableQualities:
  "availableQualities (app (deliver ev w)) = availableQualities (app w)"
  by (simp add: deliver_char)

lemma handleDownload_availableQualities:
  "availableQualities (app (handleDownload w env)) = availableQualities (app w)"
  by (cases "listen_result env")
     (simp_all add: handleDownload_def emit_def deliver_all_char
        handleDownload_start_fields handleDownload_settle_char handleDownload_pending_char)

lemma handleFetchVideoInfo_availableQualities:
  "availableQualities (app (handleFetchVideoInfo w env)) =
     (case fetch_result env of
        Resolved qs \<Rightarrow> if url (app w) = [] then availableQualities (app w) else qs
      | Rejected e \<Rightarrow> availableQualities (app w))"
proof (cases "url (app w) = []")
  case True
  then show ?thesis
    by (simp add: handleFetchVideoInfo_def emit_def split: settled.split)
next
  case False
  then show ?thesis
    by (simp add: handleFetchVideoInfo_char deliver_all_char split: settled.split)
qed

lemma last_fetched_acc:
  "last_fetched acts w acc =
     (case last_fetched acts w None of None \<Rightarrow> acc | Some qs \<Rightarrow> Some qs)"
proof (induction acts arbitrary: w acc)
  case Nil
  show ?case by simp
next
  case (Cons a acts)
  show ?case
  proof (cases a)
    case (ClickFetch env)
    define w' where "w' = step (ClickFetch env) w"
    define f where "f = (\<lambda>acc. case fetch_result env of
          Resolved qs \<Rightarrow> if fetch_issued w then Some qs else acc
        | Rejected e \<Rightarrow> acc)"
    have A: "last_fetched acts w' (f acc) =
        (case last_fetched acts w' None of None \<Rightarrow> f acc | Some qs \<Rightarrow> Some qs)"
      by (rule Cons.IH)
    have B: "last_fetched acts w' (f None) =
        (case last_fetched acts w' None of None \<Rightarrow> f None | Some qs \<Rightarrow> Some qs)"
      by (rule Cons.IH)
    have C: "(case f None of None \<Rightarrow> acc | Some qs \<Rightarrow> Some qs) = f acc"
      by (simp add: f_def split: settled.split)
    have "last_fetched (a # acts) w acc = last_fetched acts w' (f acc)"
      by (simp add: ClickFetch w'_def f_def)
    moreover have "last_fetched (a # acts) w None = last_fetched acts w' (f None)"
      by (simp add: ClickFetch w'_def f_def)
    moreover have "last_fetched acts w' (f acc) =
        (case last_fetched acts w' (f None) of None \<Rightarrow> acc | Some qs \<Rightarrow> Some qs)"
    proof (cases "last_fetched acts w' None")
      case None
      then show ?thesis using A B C by simp
    next
      case (Some qs)
      then show ?thesis using A B by simp
    qed
    ultimately show ?thesis by simp
  qed (simp_all add: Cons.IH [of _ acc])
qed

lemma run_availableQualities:
  "availableQualities (app (run acts w)) =
     (case last_fetched acts w None of
        None \<Rightarrow> availableQualities (app w)
      | Some qs \<Rightarrow> qs)"
proof (induction acts arbitrary: w)
  case Nil
  show ?case by (simp add: run_Nil)
next
  case (Cons a acts)
  have step_other: "availableQualities (app (run (a # acts) w)) =
      (case last_fetched (a # acts) w None of
         None \<Rightarrow> availableQualities (app w)
       | Some qs \<Rightarrow> qs)"
    if "last_fetched (a # acts) w None = last_fetched acts (step a w) None"
      and "availableQualities (app (step a w)) = availableQualities (app w)"
    using that by (simp add: run_Cons Cons.IH split: option.split)
  show ?case
  proof (cases a)
    case (ClickFetch env)
    define w' where "w' = step (ClickFetch env) w"
    define f where "f = (case fetch_result env of
          Resolved qs \<Rightarrow> if fetch_issued w then Some qs else None
        | Rejected e \<Rightarrow> None)"
    have L: "last_fetched (a # acts) w None =
        (case last_fetched acts w' None of None \<Rightarrow> f | Some qs \<Rightarrow> Some qs)"
      using last_fetched_acc [of acts w' f] by (simp add: ClickFetch w'_def f_def)
    have Q: "availableQualities (app w') =
        (case f of None \<Rightarrow> availableQualities (app w) | Some qs \<Rightarrow> qs)"
      by (simp add: w'_def f_def handleFetchVideoInfo_availableQualities fetch_issued_def
            split: settled.split)
    have "run (a # acts) w = run acts w'"
      by (simp only: ClickFetch run_Cons w'_def)
    then have "availableQualities (app (run (a # acts) w)) =
        (case last_fetched acts w' None of
           None \<Rightarrow> availableQualities (app w') | Some qs \<Rightarrow> qs)"
      by (simp only: Cons.IH)
    then show ?thesis
      by (simp add: L Q split: option.split)
  next
    case (ClickDownload env)
    show ?thesis
      by (rule step_other) (simp_all add: ClickDownload handleDownload_availableQualities)
  next
    case (Emitted ev)
    show ?thesis
      by (rule step_other) (simp_all add: Emitted deliver_availableQualities)
  next
    case (ChooseFolder sel)
    show ?thesis
      by (rule step_other) (simp_all add: ChooseFolder setters split: option.split)
  next
    case (ChangeUrl v)
    show ?thesis by (rule step_other) (simp_all add: ChangeUrl setters)
  next
    case (ChangeFormat v)
    show ?thesis by (rule step_other) (simp_all add: ChangeFormat setters)
  next
    case (ChangeQuality v)
    show ?thesis by (rule step_other) (simp_all add: ChangeQuality setters)
  next
    case (OpenLogViewer b)
    show ?thesis by (rule step_other) (simp_all add: OpenLogViewer setters)
  qed
qed

lemma fold_on_download_log:
  "logs (fold on_download_log ps s) = logs s @ map toLogMessage ps"
  by (induction ps arbitrary: s) (simp_all add: on_download_log_def)

lemma handleFetchVideoInfo_quality:
  "quality (app (handleFetchVideoInfo w env)) = quality (app w)"
proof (cases "url (app w) = []")
  case True
  then show ?thesis by (simp add: handleFetchVideoInfo_def emit_def)
next
  case False
  then show ?thesis
    by (simp add: handleFetchVideoInfo_char deliver_all_char split: settled.split)
qed


lemma handleFetchVideoInfo_request:
  "download_request (app (handleFetchVideoInfo w env)) = download_request (app w)"
proof (cases "url (app w) = []")
  case True
  then show ?thesis by (simp add: handleFetchVideoInfo_def emit_def)
next
  case False
  then show ?thesis
    by (simp add: handleFetchVideoInfo_char deliver_all_char download_request_def
          split: settled.split)
qed

section \<open>The scenario worlds in closed form\<close>

lemma scenario_world_eq:
  "scenario_world =
     \<lparr> app = \<lparr> url = scenario_url, format = ''video+audio'', quality = ''best'',
               isDownloading = False, isFetchingInfo = False, progress = 0,
               downloadPath = None, availableQualities = [], logs = [],
               isLogViewerOpen = False \<rparr>,
       effects = [Listen ''download-log''], subs = [(0, ''download-log'')], next_id = 1 \<rparr>"
  by (simp add: scenario_world_def mount_def initial_world_def initial_state_def
        subscribe_def setters)

lemma scenario_fetched_eq:
  "handleFetchVideoInfo scenario_world scenario_fetch_ok =
     \<lparr> app = \<lparr> url = scenario_url, format = ''video+audio'', quality = ''best'',
               isDownloading = False, isFetchingInfo = False, progress = 0,
               downloadPath = None, availableQualities = scenario_qualities, logs = [],
               isLogViewerOpen = False \<rparr>,
       effects = [Listen ''download-log'', Invoke (Get_video_info scenario_url),
                  Toast_success ''Video info fetched successfully!''],
       subs = [(0, ''download-log'')], next_id = 1 \<rparr>"
proof -
  have "url (app scenario_world) \<noteq> []"
    by (simp add: scenario_world_eq scenario_url_def)
  then show ?thesis
    by (simp add: handleFetchVideoInfo_char deliver_all_char appended_logs_Nil
          latest_progress_Nil scenario_fetch_ok_def)
       (simp add: scenario_world_eq)
qed

section \<open>Properties of the handlers\<close>

text \<open>
  Claim C1. A call of \<open>handleDownload\<close> with a non-empty URL sets the progress to 0 and
  the log sequence to the empty sequence first: in the world in which it calls
  \<open>listen\<close> both are reset, no command has been issued and no event has been
  delivered. The rest of the call starts from that world, \<open>download_media\<close> is issued
  after it, and so the logs and the progress with which the call waits for
  \<open>download_media\<close> are those of the events delivered since the reset, whatever they
  were before the call.
\<close>

theorem handleDownload_resets_first:
  "url (app w) \<noteq> [] \<Longrightarrow>
     progress (app (handleDownload_start w)) = 0 \<and>
     logs (app (handleDownload_start w)) = [] \<and>
     effects (handleDownload_start w) = effects w @ [Listen ''download-progress''] \<and>
     handleDownload w env =
       (case listen_result env of
          Rejected e \<Rightarrow> deliver_all (during_listen env) (handleDownload_start w)
        | Resolved _ \<Rightarrow>
            handleDownload_settle (next_id w) (invoke_result env)
              (deliver_all (during_invoke env)
                 (emit (Invoke (Download_media (download_request (app w))))
                    (deliver_all (during_listen env)
                       (subscribe ''download-progress'' (handleDownload_start w)))))) \<and>
     effects (handleDownload_pending w env) =
       effects (handleDownload_start w) @
         [Invoke (Download_media (download_request (app w)))] \<and>
     logs (app (handleDownload_pending w env)) =
       appended_logs (log_subscribers w) (during_listen env @ during_invoke env) \<and>
     progress (app (handleDownload_pending w env)) =
       last (0 # progress_values (during_listen env @ during_invoke env))"
  by (simp add: handleDownload_start_fields handleDownload_pending_char)
     (simp add: handleDownload_def handleDownload_pending_def split: settled.split)

text \<open>
  The theorem at a second download in the scenario: the first one has left the progress
  at 100 and two log lines; the second one starts from 0 and no line, and waits with
  the lines and the progress value of its own events only.
\<close>

theorem handleDownload_resets_first_witness:
  "url (app (handleDownload scenario_world scenario_download_ok)) \<noteq> [] \<and>
   progress (app (handleDownload scenario_world scenario_download_ok)) = 100 \<and>
   length (logs (app (handleDownload scenario_world scenario_download_ok))) = 2 \<and>
   progress (app (handleDownload_start
      (handleDownload scenario_world scenario_download_ok))) = 0 \<and>
   logs (app (handleDownload_start
      (handleDownload scenario_world scenario_download_ok))) = [] \<and>
   logs (app (handleDownload_pending
      (handleDownload scenario_world scenario_download_ok) scenario_download_ok)) =
     [\<lparr> type_l = ''stdout'', message = ''starting'' \<rparr>,
      \<lparr> type_l = ''stderr'', message = ''warning'' \<rparr>] \<and>
   progress (app (handleDownload_pending
      (handleDownload scenario_world scenario_download_ok) scenario_download_ok)) = 42"
proof -
  have w: "handleDownload scenario_world scenario_download_ok =
             \<lparr> app = \<lparr> url = scenario_url, format = ''video+audio'', quality = ''best'',
                       isDownloading = False, isFetchingInfo = False, progress = 100,
                       downloadPath = None, availableQualities = [],
                       logs = [\<lparr> type_l = ''stdout'', message = ''starting'' \<rparr>,
                               \<lparr> type_l = ''stderr'', message = ''warning'' \<rparr>],
                       isLogViewerOpen = False \<rparr>,
               effects = [Listen ''download-log'', Listen ''download-progress'',
                          Invoke (Download_media
                            \<lparr> req_url = scenario_url, req_format = ''video+audio'',
                              req_quality = ''best'', req_downloadPath = None \<rparr>),
                          Toast_success ''Download started successfully!'', Unlisten 1],
               subs = [(0, ''download-log'')], next_id = 2 \<rparr>"
    by (simp add: handleDownload_def handleDownload_settle_def handleDownload_pending_char
          scenario_world_def scenario_download_ok_def scenario_url_def mount_def
          initial_world_def initial_state_def subscribe_def unlisten_def setters
          download_request_def log_subscribers_def appended_logs_def toLogMessage_def)
  have h1: "url (app (handleDownload scenario_world scenario_download_ok)) \<noteq> []"
    by (simp add: w scenario_url_def)
  show ?thesis
    using h1 handleDownload_resets_first [OF h1, of scenario_download_ok]
    unfolding w
    by (simp add: log_subscribers_def appended_logs_def toLogMessage_def
          scenario_download_ok_def)
qed

text \<open>
  Claim C2. When a call of \<open>handleDownload\<close> has issued \<open>download_media\<close> (the URL is not
  empty and \<open>listen\<close> resolved) and the command resolves, the call ends with the
  progress at exactly 100, whatever progress events arrived before, also when none
  did. The subscription is gone by then: if there was no other progress subscription,
  events that arrive later leave the 100 in place.
\<close>

theorem handleDownload_success_progress:
  "url (app w) \<noteq> [] \<Longrightarrow> listen_result env = Resolved u \<Longrightarrow>
   invoke_result env = Resolved v \<Longrightarrow>
     progress (app (handleDownload w env)) = 100 \<and>
     (progress_subscribers w = 0 \<longrightarrow>
        (\<forall>evs. progress (app (deliver_all evs (handleDownload w env))) = 100))"
proof (intro conjI impI allI)
  assume a: "url (app w) \<noteq> []" "listen_result env = Resolved u"
    "invoke_result env = Resolved v"
  show p: "progress (app (handleDownload w env)) = 100"
    by (simp add: handleDownload_resolved [OF a(1,2)] handleDownload_settle_char a(3))
  fix evs
  assume n: "progress_subscribers w = 0"
  have "progress_subscribers (handleDownload w env) = 0"
    using n
    by (simp add: handleDownload_resolved [OF a(1,2)] handleDownload_settle_char
          handleDownload_pending_char progress_subscribers_def filter_empty_conv split_beta)
  then show "progress (app (deliver_all evs (handleDownload w env))) = 100"
    by (simp add: deliver_all_char [of evs] latest_progress_def p)
qed

theorem handleDownload_success_progress_witness:
  "url (app scenario_world) \<noteq> [] \<and>
   listen_result scenario_download_ok = Resolved () \<and>
   invoke_result scenario_download_ok = Resolved () \<and>
   progress_subscribers scenario_world = 0 \<and>
   progress_values (during_invoke scenario_download_ok) = [42] \<and>
   progress (app (handleDownload scenario_world scenario_download_ok)) = 100 \<and>
   progress (app (deliver_all
      [DownloadProgress \<lparr> payload_progress = 57, payload_status = ''late'' \<rparr>]
      (handleDownload scenario_world scenario_download_ok))) = 100"
proof -
  have h1: "url (app scenario_world) \<noteq> []"
    by (simp add: scenario_world_eq scenario_url_def)
  have h2: "listen_result scenario_download_ok = Resolved ()"
    by (simp add: scenario_download_ok_def)
  have h3: "invoke_result scenario_download_ok = Resolved ()"
    by (simp add: scenario_download_ok_def)
  have h4: "progress_subscribers scenario_world = 0"
    by (simp add: scenario_world_eq progress_subscribers_def)
  have h5: "progress_values (during_invoke scenario_download_ok) = [42]"
    by (simp add: scenario_download_ok_def)
  show ?thesis
    using h1 h2 h3 h4 h5 handleDownload_success_progress [OF h1 h2 h3]
    by simp
qed

text \<open>
  Claim C3. When a call of \<open>handleDownload\<close> has issued \<open>download_media\<close> and the command
  rejects with the error string \<open>e\<close>, the call shows an error notification with the text
  "Failed to start download: " followed by \<open>e\<close>, and it leaves the progress at the value
  it had while the command was pending: the value of the last progress event since
  the reset, and 0 if there was none.
\<close>

theorem handleDownload_failure_notified:
  "url (app w) \<noteq> [] \<Longrightarrow> listen_result env = Resolved u \<Longrightarrow>
   invoke_result env = Rejected e \<Longrightarrow>
     effects (handleDownload w env) =
       effects w @ [Listen ''download-progress'',
                    Invoke (Download_media (download_request (app w))),
                    Console_error e,
                    Toast_error (''Failed to start download: '' @ e),
                    Unlisten (next_id w)] \<and>
     progress (app (handleDownload w env)) = progress (app (handleDownload_pending w env)) \<and>
     progress (app (handleDownload w env)) =
       last (0 # progress_values (during_listen env @ during_invoke env)) \<and>
     (progress_values (during_listen env @ during_invoke env) = [] \<longrightarrow>
        progress (app (handleDownload w env)) = 0)"
  by (simp add: handleDownload_resolved handleDownload_settle_char
        handleDownload_pending_char)

theorem handleDownload_failure_notified_witness:
  "url (app scenario_world) \<noteq> [] \<and>
   listen_result scenario_download_fail = Resolved () \<and>
   invoke_result scenario_download_fail = Rejected ''tool not found'' \<and>
   Toast_error ''Failed to start download: tool not found''
     \<in> set (effects (handleDownload scenario_world scenario_download_fail)) \<and>
   progress (app (handleDownload scenario_world scenario_download_fail)) = 0"
proof -
  have h1: "url (app scenario_world) \<noteq> []"
    by (simp add: scenario_world_eq scenario_url_def)
  have h2: "listen_result scenario_download_fail = Resolved ()"
    by (simp add: scenario_download_fail_def)
  have h3: "invoke_result scenario_download_fail = Rejected ''tool not found''"
    by (simp add: scenario_download_fail_def)
  have h4: "progress_values
      (during_listen scenario_download_fail @ during_invoke scenario_download_fail) = []"
    by (simp add: scenario_download_fail_def)
  show ?thesis
    using h1 h2 h3 h4 handleDownload_failure_notified [OF h1 h2 h3]
    by simp
qed

text \<open>
  Claim C4. In every state that a mounted view reaches, the values offered by the
  quality selector are the two entries "best" and "worst" when no \<open>get_video_info\<close> has
  been issued and resolved, or the last one that was returned the empty sequence, and
  otherwise the identifiers of the sequence that the last one returned, in its order.
  The items are the two fallback items or the fetched ones, never both. A click on the
  fetch button issues the command exactly when \<open>fetch_issued\<close> holds.
\<close>

theorem quality_selector_exclusive:
  "quality_options (app (run acts (mount initial_world))) =
     (case last_fetched acts (mount initial_world) None of
        None \<Rightarrow> [''best'', ''worst'']
      | Some qs \<Rightarrow> if qs = [] then [''best'', ''worst''] else map id_q qs) \<and>
   (quality_items s = [(''best'', ''Best Available''), (''worst'', ''Lowest Available'')] \<and>
      availableQualities s = []
    \<or> quality_items s = map (\<lambda>q. (id_q q, label q)) (availableQualities s) \<and>
      availableQualities s \<noteq> []) \<and>
   (fetch_issued w \<longleftrightarrow>
      Invoke (Get_video_info (url (app w)))
        \<in> set (new_effects w (step (ClickFetch env) w)))"
proof (intro conjI)
  have "availableQualities (app (mount initial_world)) = []"
    by (simp add: mount_def initial_world_def initial_state_def subscribe_def emit_def)
  then have "availableQualities (app (run acts (mount initial_world))) =
      (case last_fetched acts (mount initial_world) None of None \<Rightarrow> [] | Some qs \<Rightarrow> qs)"
    by (simp add: run_availableQualities split: option.split)
  then show "quality_options (app (run acts (mount initial_world))) =
     (case last_fetched acts (mount initial_world) None of
        None \<Rightarrow> [''best'', ''worst'']
      | Some qs \<Rightarrow> if qs = [] then [''best'', ''worst''] else map id_q qs)"
    by (simp add: quality_options_def quality_items_def comp_def split: option.split)
  show "quality_items s = [(''best'', ''Best Available''), (''worst'', ''Lowest Available'')] \<and>
      availableQualities s = []
    \<or> quality_items s = map (\<lambda>q. (id_q q, label q)) (availableQualities s) \<and>
      availableQualities s \<noteq> []"
    by (simp add: quality_items_def)
  show "fetch_issued w \<longleftrightarrow>
      Invoke (Get_video_info (url (app w)))
        \<in> set (new_effects w (step (ClickFetch env) w))"
  proof (cases "url (app w) = []")
    case True
    then show ?thesis
      by (simp add: fetch_issued_def new_effects_def handleFetchVideoInfo_def emit_def)
  next
    case False
    then show ?thesis
      by (simp add: fetch_issued_def new_effects_def handleFetchVideoInfo_char)
  qed
qed

theorem quality_selector_exclusive_witness:
  "last_fetched [ChangeUrl scenario_url, ClickFetch scenario_fetch_ok]
     (mount initial_world) None = Some scenario_qualities \<and>
   last_fetched [ClickFetch scenario_fetch_ok, ChangeUrl scenario_url,
       ClickFetch scenario_fetch_fail] (mount initial_world) None = None \<and>
   quality_options (app (run [ChangeUrl scenario_url, ClickFetch scenario_fetch_ok]
     (mount initial_world))) = [''137'', ''140''] \<and>
   quality_options (app (run [ClickFetch scenario_fetch_ok, ChangeUrl scenario_url,
       ClickFetch scenario_fetch_fail] (mount initial_world))) = [''best'', ''worst'']"
proof -
  have m: "setUrl scenario_url (mount initial_world) = scenario_world"
    by (simp add: scenario_world_def)
  have i: "fetch_issued scenario_world" "\<not> fetch_issued (mount initial_world)"
    by (simp_all add: fetch_issued_def scenario_world_eq scenario_url_def
          mount_def initial_world_def initial_state_def subscribe_def emit_def)
  have a: "last_fetched [ChangeUrl scenario_url, ClickFetch scenario_fetch_ok]
     (mount initial_world) None = Some scenario_qualities"
    by (simp add: m i scenario_fetch_ok_def)
  have b: "last_fetched [ClickFetch scenario_fetch_ok, ChangeUrl scenario_url,
       ClickFetch scenario_fetch_fail] (mount initial_world) None = None"
    by (simp add: i scenario_fetch_ok_def scenario_fetch_fail_def)
  show ?thesis
    using a b
      quality_selector_exclusive
        [of "[ChangeUrl scenario_url, ClickFetch scenario_fetch_ok]"]
      quality_selector_exclusive
        [of "[ClickFetch scenario_fetch_ok, ChangeUrl scenario_url,
              ClickFetch scenario_fetch_fail]"]
    by (simp add: scenario_qualities_def)
qed

text \<open>
  Claim C5. The log handler appends exactly one \<open>LogMessage\<close> to the end of the log
  sequence for each emission it receives, so a sequence of emissions leaves the log
  sequence extended by their messages in the order of emission, none dropped and none
  moved; on a freshly mounted view the log sequence is that sequence of messages, and
  progress events in between do not touch it.
\<close>

theorem download_log_in_order:
  "logs (on_download_log p s) = logs s @ [toLogMessage p] \<and>
   logs (fold on_download_log ps s) = logs s @ map toLogMessage ps \<and>
   logs (app (deliver_all evs (mount initial_world))) = map toLogMessage (log_payloads evs) \<and>
   (log_subscribers w = 1 \<longrightarrow>
      logs (app (deliver_all evs w)) = logs (app w) @ map toLogMessage (log_payloads evs))"
  by (simp add: fold_on_download_log on_download_log_def deliver_all_char
        appended_logs_one)
     (simp add: log_subscribers_def mount_def initial_world_def initial_state_def
        subscribe_def emit_def appended_logs_one)

theorem download_log_in_order_witness:
  "log_subscribers scenario_world = 1 \<and>
   logs (app (deliver_all
      [DownloadLog \<lparr> message_type = ''stdout'', payload_message = ''one'' \<rparr>,
       DownloadProgress \<lparr> payload_progress = 10, payload_status = ''downloading'' \<rparr>,
       DownloadLog \<lparr> message_type = ''stderr'', payload_message = ''two'' \<rparr>,
       DownloadLog \<lparr> message_type = ''stdout'', payload_message = ''one'' \<rparr>]
      scenario_world)) =
     [\<lparr> type_l = ''stdout'', message = ''one'' \<rparr>,
      \<lparr> type_l = ''stderr'', message = ''two'' \<rparr>,
      \<lparr> type_l = ''stdout'', message = ''one'' \<rparr>]"
proof -
  have h: "log_subscribers scenario_world = 1"
    by (simp add: scenario_world_eq log_subscribers_def)
  have l: "logs (app scenario_world) = []"
    by (simp add: scenario_world_eq)
  show ?thesis
    using h l download_log_in_order [of _ _ _ _ scenario_world]
    by (simp add: toLogMessage_def)
qed

text \<open>
  Claim C6. With an empty URL, \<open>handleFetchVideoInfo\<close> and \<open>handleDownload\<close> show the
  error notification and return: the resulting world is the old one with that
  notification added, so no command is issued, no subscription is made and no cell of
  the state changes.
\<close>

theorem empty_url_rejected:
  "url (app w) = [] \<Longrightarrow>
     handleFetchVideoInfo w fenv =
       w\<lparr>effects := effects w @ [Toast_error ''Please enter a YouTube URL'']\<rparr> \<and>
     handleDownload w denv =
       w\<lparr>effects := effects w @ [Toast_error ''Please enter a YouTube URL'']\<rparr>"
  by (simp add: handleFetchVideoInfo_def handleDownload_def emit_def)

theorem empty_url_rejected_witness:
  "url (app (mount initial_world)) = [] \<and>
   handleFetchVideoInfo (mount initial_world) scenario_fetch_ok =
     (mount initial_world)
       \<lparr>effects := [Listen ''download-log'', Toast_error ''Please enter a YouTube URL'']\<rparr> \<and>
   handleDownload (mount initial_world) scenario_download_ok =
     (mount initial_world)
       \<lparr>effects := [Listen ''download-log'', Toast_error ''Please enter a YouTube URL'']\<rparr> \<and>
   filter is_invoke (effects (handleDownload (mount initial_world) scenario_download_ok)) = []"
proof -
  have h: "url (app (mount initial_world)) = []"
    by (simp add: mount_def initial_world_def initial_state_def subscribe_def emit_def)
  have e: "effects (mount initial_world) = [Listen ''download-log'']"
    by (simp add: mount_def initial_world_def subscribe_def emit_def)
  show ?thesis
    using h empty_url_rejected [OF h, of scenario_fetch_ok scenario_download_ok]
    by (simp add: e is_invoke_def)
qed

text \<open>
  Claim C7, as the specification states it, fails. With the format "audio", the quality
  "140" and no download path chosen, a call of \<open>handleDownload\<close> in a view whose URL is
  empty issues no command at all, and neither does a call whose \<open>listen\<close> is refused.
  Where the command is issued, the key \<open>downloadPath\<close> is not missing from the request:
  it is one of its four keys.
\<close>

theorem handleDownload_request_audio_140_counterexample:
  "format (app scenario_audio_no_url) = ''audio'' \<and>
   quality (app scenario_audio_no_url) = ''140'' \<and>
   downloadPath (app scenario_audio_no_url) = None \<and>
   filter is_invoke
     (new_effects scenario_audio_no_url
        (handleDownload scenario_audio_no_url scenario_download_ok)) = [] \<and>
   Invoke (Download_media
      \<lparr> req_url = [], req_format = ''audio'', req_quality = ''140'',
        req_downloadPath = None \<rparr>)
     \<notin> set (effects (handleDownload scenario_audio_no_url scenario_download_ok)) \<and>
   format (app scenario_audio_world) = ''audio'' \<and>
   quality (app scenario_audio_world) = ''140'' \<and>
   downloadPath (app scenario_audio_world) = None \<and>
   filter is_invoke
     (new_effects scenario_audio_world
        (handleDownload scenario_audio_world scenario_listen_refused)) = [] \<and>
   filter is_invoke
     (new_effects scenario_audio_world
        (handleDownload scenario_audio_world scenario_download_ok)) =
     [Invoke (Download_media
        \<lparr> req_url = scenario_url, req_format = ''audio'', req_quality = ''140'',
          req_downloadPath = None \<rparr>)] \<and>
   map fst (request_object
      \<lparr> req_url = scenario_url, req_format = ''audio'', req_quality = ''140'',
        req_downloadPath = None \<rparr>) =
     [''url'', ''format'', ''quality'', ''downloadPath'']"
proof -
  have blank: "scenario_audio_no_url =
      \<lparr> app = \<lparr> url = [], format = ''audio'', quality = ''140'',
                isDownloading = False, isFetchingInfo = False, progress = 0,
                downloadPath = None, availableQualities = [], logs = [],
                isLogViewerOpen = False \<rparr>,
        effects = [Listen ''download-log''], subs = [(0, ''download-log'')], next_id = 1 \<rparr>"
    by (simp add: scenario_audio_no_url_def mount_def initial_world_def initial_state_def
          subscribe_def setters)
  have audio: "scenario_audio_world =
      \<lparr> app = \<lparr> url = scenario_url, format = ''audio'', quality = ''140'',
                isDownloading = False, isFetchingInfo = False, progress = 0,
                downloadPath = None, availableQualities = [], logs = [],
                isLogViewerOpen = False \<rparr>,
        effects = [Listen ''download-log''], subs = [(0, ''download-log'')], next_id = 1 \<rparr>"
    by (simp add: scenario_audio_world_def scenario_world_eq setters)
  have no_url: "handleDownload scenario_audio_no_url scenario_download_ok =
      scenario_audio_no_url
        \<lparr>effects := [Listen ''download-log'', Toast_error ''Please enter a YouTube URL'']\<rparr>"
    by (simp add: blank handleDownload_def emit_def)
  have u: "url (app scenario_audio_world) \<noteq> []"
    by (simp add: audio scenario_url_def)
  have refused: "effects (handleDownload scenario_audio_world scenario_listen_refused) =
      [Listen ''download-log'', Listen ''download-progress'']"
    using u
    by (simp add: handleDownload_def scenario_listen_refused_def deliver_all_Nil
          handleDownload_start_fields)
       (simp add: audio)
  have issued: "filter is_invoke
     (new_effects scenario_audio_world
        (handleDownload scenario_audio_world scenario_download_ok)) =
     [Invoke (Download_media (download_request (app scenario_audio_world)))]"
    by (rule handleDownload_invokes [OF u, of _ "()"])
       (simp add: scenario_download_ok_def)
  have req: "download_request (app scenario_audio_world) =
      \<lparr> req_url = scenario_url, req_format = ''audio'', req_quality = ''140'',
        req_downloadPath = None \<rparr>"
    by (simp add: audio download_request_def)
  have c1: "format (app scenario_audio_no_url) = ''audio''"
    and c2: "quality (app scenario_audio_no_url) = ''140''"
    and c3: "downloadPath (app scenario_audio_no_url) = None"
    by (simp_all add: blank)
  have c4: "filter is_invoke
     (new_effects scenario_audio_no_url
        (handleDownload scenario_audio_no_url scenario_download_ok)) = []"
    by (simp add: no_url new_effects_def is_invoke_def) (simp add: blank is_invoke_def)
  have c5: "Invoke (Download_media
      \<lparr> req_url = [], req_format = ''audio'', req_quality = ''140'',
        req_downloadPath = None \<rparr>)
     \<notin> set (effects (handleDownload scenario_audio_no_url scenario_download_ok))"
    by (simp add: no_url)
  have c6: "format (app scenario_audio_world) = ''audio''"
    and c7: "quality (app scenario_audio_world) = ''140''"
    and c8: "downloadPath (app scenario_audio_world) = None"
    by (simp_all add: audio)
  have c9: "filter is_invoke
     (new_effects scenario_audio_world
        (handleDownload scenario_audio_world scenario_listen_refused)) = []"
    by (simp add: new_effects_def refused is_invoke_def) (simp add: audio is_invoke_def)
  have c10: "filter is_invoke
     (new_effects scenario_audio_world
        (handleDownload scenario_audio_world scenario_download_ok)) =
     [Invoke (Download_media
        \<lparr> req_url = scenario_url, req_format = ''audio'', req_quality = ''140'',
          req_downloadPath = None \<rparr>)]"
    using issued by (simp only: req)
  have c11: "map fst (request_object
      \<lparr> req_url = scenario_url, req_format = ''audio'', req_quality = ''140'',
        req_downloadPath = None \<rparr>) =
     [''url'', ''format'', ''quality'', ''downloadPath'']"
    by (simp add: request_object_def)
  from c1 c2 c3 c4 c5 c6 c7 c8 c9 c10 c11 show ?thesis
    by (intro conjI)
qed

text \<open>
  Claim C7, amended. A call of \<open>handleDownload\<close> with the format "audio", the quality
  "140" and no download path chosen, in a view whose URL is not empty and whose call
  of \<open>listen\<close> resolves, issues exactly one command: \<open>download_media\<close> with the URL, the
  format "audio", the quality "140" and no download path. The request is the object
  of the four keys \<open>url\<close>, \<open>format\<close>, \<open>quality\<close> and \<open>downloadPath\<close>, and the value under
  \<open>downloadPath\<close> is \<open>null\<close>.
\<close>

theorem handleDownload_request_audio_140:
  "url (app w) \<noteq> [] \<Longrightarrow> listen_result env = Resolved u \<Longrightarrow>
   format (app w) = ''audio'' \<Longrightarrow> quality (app w) = ''140'' \<Longrightarrow>
   downloadPath (app w) = None \<Longrightarrow>
     filter is_invoke (new_effects w (handleDownload w env)) =
       [Invoke (Download_media
          \<lparr> req_url = url (app w), req_format = ''audio'', req_quality = ''140'',
            req_downloadPath = None \<rparr>)] \<and>
     request_object (download_request (app w)) =
       [(''url'', JString (url (app w))), (''format'', JString ''audio''),
        (''quality'', JString ''140''), (''downloadPath'', JNull)]"
  by (simp add: handleDownload_invokes download_request_def request_object_def)

theorem handleDownload_request_audio_140_witness:
  "url (app scenario_audio_world) \<noteq> [] \<and>
   listen_result scenario_download_ok = Resolved () \<and>
   format (app scenario_audio_world) = ''audio'' \<and>
   quality (app scenario_audio_world) = ''140'' \<and>
   downloadPath (app scenario_audio_world) = None \<and>
   filter is_invoke
     (new_effects scenario_audio_world
        (handleDownload scenario_audio_world scenario_download_ok)) =
     [Invoke (Download_media
        \<lparr> req_url = ''https://www.youtube.com/watch?v=abc123'', req_format = ''audio'',
          req_quality = ''140'', req_downloadPath = None \<rparr>)] \<and>
   request_object (download_request (app scenario_audio_world)) =
     [(''url'', JString ''https://www.youtube.com/watch?v=abc123''),
      (''format'', JString ''audio''), (''quality'', JString ''140''),
      (''downloadPath'', JNull)]"
proof -
  have h1: "url (app scenario_audio_world) \<noteq> []"
    by (simp add: scenario_audio_world_def scenario_world_eq scenario_url_def setters)
  have h2: "listen_result scenario_download_ok = Resolved ()"
    by (simp add: scenario_download_ok_def)
  have h3: "format (app scenario_audio_world) = ''audio''"
    by (simp add: scenario_audio_world_def setters)
  have h4: "quality (app scenario_audio_world) = ''140''"
    by (simp add: scenario_audio_world_def setters)
  have h5: "downloadPath (app scenario_audio_world) = None"
    by (simp add: scenario_audio_world_def scenario_world_eq setters)
  have u: "url (app scenario_audio_world) = ''https://www.youtube.com/watch?v=abc123''"
    by (simp add: scenario_audio_world_def scenario_world_eq scenario_url_def setters)
  show ?thesis
    using h1 h2 h3 h4 h5 handleDownload_request_audio_140 [OF h1 h2 h3 h4 h5]
    by (simp only: u simp_thms)
qed

text \<open>
  Claim C8. A call of \<open>handleDownload\<close> that has subscribed to the progress channel
  releases that subscription exactly once, as the last thing it does after
  \<open>download_media\<close> has settled, on the success path and on the failure path alike:
  the subscription is there while the command is pending and gone when the call
  ends. So no progress subscription outlives a download: whatever the user does to a
  mounted view, however many downloads, only the log subscription of the mount is
  ever left.
\<close>

theorem progress_listener_released:
  "(url (app w) \<noteq> [] \<and> listen_result env = Resolved u \<longrightarrow>
      effects (handleDownload w env) =
        effects w @ [Listen ''download-progress'',
                     Invoke (Download_media (download_request (app w)))] @
         (case invoke_result env of
            Resolved _ \<Rightarrow> [Toast_success ''Download started successfully!'']
          | Rejected e \<Rightarrow>
              [Console_error e, Toast_error (''Failed to start download: '' @ e)]) @
         [Unlisten (next_id w)] \<and>
      count_list (new_effects w (handleDownload w env)) (Unlisten (next_id w)) = 1 \<and>
      subs (handleDownload_pending w env) = subs w @ [(next_id w, ''download-progress'')] \<and>
      next_id w \<notin> fst ` set (subs (handleDownload w env)) \<and>
      (fresh_ids w \<longrightarrow> subs (handleDownload w env) = subs w)) \<and>
   (\<forall>acts. subs (run acts (mount initial_world)) = [(0, ''download-log'')])"
proof (intro conjI impI allI)
  fix acts
  have "fresh_ids (mount initial_world)"
    by (simp add: fresh_ids_def mount_def initial_world_def subscribe_def emit_def)
  then have "subs (run acts (mount initial_world)) = subs (mount initial_world)"
    by (rule run_subs)
  then show "subs (run acts (mount initial_world)) = [(0, ''download-log'')]"
    by (simp add: mount_def initial_world_def subscribe_def emit_def)
next
  assume a: "url (app w) \<noteq> [] \<and> listen_result env = Resolved u"
  then have h: "handleDownload w env =
       handleDownload_settle (next_id w) (invoke_result env) (handleDownload_pending w env)"
    by (simp add: handleDownload_resolved)
  show "effects (handleDownload w env) =
        effects w @ [Listen ''download-progress'',
                     Invoke (Download_media (download_request (app w)))] @
         (case invoke_result env of
            Resolved _ \<Rightarrow> [Toast_success ''Download started successfully!'']
          | Rejected e \<Rightarrow>
              [Console_error e, Toast_error (''Failed to start download: '' @ e)]) @
         [Unlisten (next_id w)]"
    by (simp add: h handleDownload_settle_char handleDownload_pending_char)
  show "count_list (new_effects w (handleDownload w env)) (Unlisten (next_id w)) = 1"
    by (cases "invoke_result env")
       (simp_all add: h handleDownload_settle_char handleDownload_pending_char
          new_effects_def)
  show "subs (handleDownload_pending w env) = subs w @ [(next_id w, ''download-progress'')]"
    by (simp add: handleDownload_pending_char)
  show "next_id w \<notin> fst ` set (subs (handleDownload w env))"
    by (auto simp: h handleDownload_settle_char handleDownload_pending_char)
  assume "fresh_ids w"
  then show "subs (handleDownload w env) = subs w"
    by (rule handleDownload_subs)
qed

theorem progress_listener_released_witness:
  "url (app scenario_world) \<noteq> [] \<and>
   listen_result scenario_download_fail = Resolved () \<and>
   fresh_ids scenario_world \<and>
   effects (handleDownload scenario_world scenario_download_fail) =
     [Listen ''download-log'', Listen ''download-progress'',
      Invoke (Download_media (download_request (app scenario_world))),
      Console_error ''tool not found'',
      Toast_error ''Failed to start download: tool not found'', Unlisten 1] \<and>
   subs (handleDownload_pending scenario_world scenario_download_fail) =
     [(0, ''download-log''), (1, ''download-progress'')] \<and>
   subs (handleDownload scenario_world scenario_download_fail) = [(0, ''download-log'')] \<and>
   subs (run [ChangeUrl scenario_url, ClickDownload scenario_download_ok,
              ClickDownload scenario_download_fail] (mount initial_world)) =
     [(0, ''download-log'')]"
proof -
  have h: "url (app scenario_world) \<noteq> [] \<and> listen_result scenario_download_fail = Resolved ()"
    by (simp add: scenario_world_eq scenario_url_def scenario_download_fail_def)
  have f: "fresh_ids scenario_world"
    by (simp add: scenario_world_eq fresh_ids_def)
  have e: "effects scenario_world = [Listen ''download-log'']"
      "subs scenario_world = [(0, ''download-log'')]" "next_id scenario_world = 1"
      "invoke_result scenario_download_fail = Rejected ''tool not found''"
    by (simp_all add: scenario_world_eq scenario_download_fail_def)
  show ?thesis
    using h f progress_listener_released [of scenario_world scenario_download_fail "()"]
    by (simp add: e)
qed

text \<open>
  Claim C9. When \<open>handleFetchVideoInfo\<close> has issued \<open>get_video_info\<close> and the command
  rejects, the list of available qualities is the one from before the call. The call
  changes one cell of the state, \<open>isFetchingInfo\<close>: true while the command is pending
  and false at the end, the other cells being what the events delivered in the
  meantime make of them, and unchanged without such events. Its effects are the
  command, the console line and the error notification.
\<close>

theorem handleFetchVideoInfo_rejected_frame:
  "url (app w) \<noteq> [] \<Longrightarrow> fetch_result env = Rejected e \<Longrightarrow>
     availableQualities (app (handleFetchVideoInfo w env)) = availableQualities (app w) \<and>
     app (handleFetchVideoInfo_pending w env) =
       (app (deliver_all (fetch_during env) w))\<lparr>isFetchingInfo := True\<rparr> \<and>
     app (handleFetchVideoInfo w env) =
       (app (deliver_all (fetch_during env) w))\<lparr>isFetchingInfo := False\<rparr> \<and>
     (fetch_during env = [] \<longrightarrow>
        app (handleFetchVideoInfo w env) = (app w)\<lparr>isFetchingInfo := False\<rparr>) \<and>
     effects (handleFetchVideoInfo w env) =
       effects w @ [Invoke (Get_video_info (url (app w))), Console_error e,
                    Toast_error (''Failed to fetch video info: '' @ e)] \<and>
     subs (handleFetchVideoInfo w env) = subs w \<and>
     next_id (handleFetchVideoInfo w env) = next_id w"
  by (simp add: handleFetchVideoInfo_char handleFetchVideoInfo_pending_char
        deliver_all_char appended_logs_Nil latest_progress_Nil)

theorem handleFetchVideoInfo_rejected_frame_witness:
  "url (app (handleFetchVideoInfo scenario_world scenario_fetch_ok)) \<noteq> [] \<and>
   fetch_result scenario_fetch_fail = Rejected ''network down'' \<and>
   availableQualities (app (handleFetchVideoInfo
      (handleFetchVideoInfo scenario_world scenario_fetch_ok) scenario_fetch_fail)) =
     scenario_qualities \<and>
   app (handleFetchVideoInfo
      (handleFetchVideoInfo scenario_world scenario_fetch_ok) scenario_fetch_fail) =
     app (handleFetchVideoInfo scenario_world scenario_fetch_ok) \<and>
   Toast_error ''Failed to fetch video info: network down''
     \<in> set (effects (handleFetchVideoInfo
          (handleFetchVideoInfo scenario_world scenario_fetch_ok) scenario_fetch_fail))"
proof -
  have h1: "url (app (handleFetchVideoInfo scenario_world scenario_fetch_ok)) \<noteq> []"
    by (simp add: scenario_fetched_eq scenario_url_def)
  have h2: "fetch_result scenario_fetch_fail = Rejected ''network down''"
    by (simp add: scenario_fetch_fail_def)
  have h3: "fetch_during scenario_fetch_fail = []"
    by (simp add: scenario_fetch_fail_def)
  have q: "availableQualities (app (handleFetchVideoInfo scenario_world scenario_fetch_ok)) =
      scenario_qualities"
      "(app (handleFetchVideoInfo scenario_world scenario_fetch_ok))\<lparr>isFetchingInfo := False\<rparr> =
      app (handleFetchVideoInfo scenario_world scenario_fetch_ok)"
    by (simp_all add: scenario_fetched_eq)
  show ?thesis
    using h1 h2 h3 q handleFetchVideoInfo_rejected_frame [OF h1 h2]
    by (simp add: deliver_all_Nil)
qed

text \<open>
  Claim C10. \<open>handleFetchVideoInfo\<close> never changes the selected quality, while a
  resolved \<open>get_video_info\<close> replaces the available qualities by what it returned. A
  download after the fetch therefore sends the request that the state before the
  fetch determines, with the quality selected then. In the scenario the fetch returns
  the options 137 and 140, the selected quality is still the initial "best", and
  "best" is not among the values that the selector offers.
\<close>

theorem fetch_keeps_selected_quality:
  "quality (app (handleFetchVideoInfo w env)) = quality (app w) \<and>
   (url (app w) \<noteq> [] \<and> fetch_result env = Resolved qs \<longrightarrow>
      availableQualities (app (handleFetchVideoInfo w env)) = qs) \<and>
   (url (app w) \<noteq> [] \<and> listen_result denv = Resolved u \<longrightarrow>
      filter is_invoke
        (new_effects (handleFetchVideoInfo w env)
           (handleDownload (handleFetchVideoInfo w env) denv)) =
        [Invoke (Download_media (download_request (app w)))] \<and>
      req_quality (download_request (app w)) = quality (app w)) \<and>
   quality_options (app (handleFetchVideoInfo scenario_world scenario_fetch_ok)) =
     [''137'', ''140''] \<and>
   quality (app (handleFetchVideoInfo scenario_world scenario_fetch_ok)) = ''best'' \<and>
   quality (app (handleFetchVideoInfo scenario_world scenario_fetch_ok)) \<notin>
     set (quality_options (app (handleFetchVideoInfo scenario_world scenario_fetch_ok)))"
proof (intro conjI impI)
  show "quality (app (handleFetchVideoInfo w env)) = quality (app w)"
    by (rule handleFetchVideoInfo_quality)
  show "availableQualities (app (handleFetchVideoInfo w env)) = qs"
    if "url (app w) \<noteq> [] \<and> fetch_result env = Resolved qs"
    using that by (simp add: handleFetchVideoInfo_availableQualities)
  show "filter is_invoke
        (new_effects (handleFetchVideoInfo w env)
           (handleDownload (handleFetchVideoInfo w env) denv)) =
        [Invoke (Download_media (download_request (app w)))]"
    if a: "url (app w) \<noteq> [] \<and> listen_result denv = Resolved u"
  proof -
    have "url (app (handleFetchVideoInfo w env)) = url (app w)"
      using handleFetchVideoInfo_request [of w env]
      by (simp add: download_request_def)
    then have "url (app (handleFetchVideoInfo w env)) \<noteq> []"
      using a by simp
    then show ?thesis
      using a handleDownload_invokes [of "handleFetchVideoInfo w env" denv u]
      by (simp add: handleFetchVideoInfo_request)
  qed
  show "req_quality (download_request (app w)) = quality (app w)"
    by (simp add: download_request_def)
  show "quality_options (app (handleFetchVideoInfo scenario_world scenario_fetch_ok)) =
     [''137'', ''140'']"
    by (simp add: scenario_fetched_eq quality_options_def quality_items_def
          scenario_qualities_def)
  show "quality (app (handleFetchVideoInfo scenario_world scenario_fetch_ok)) = ''best''"
    by (simp add: scenario_fetched_eq)
  show "quality (app (handleFetchVideoInfo scenario_world scenario_fetch_ok)) \<notin>
     set (quality_options (app (handleFetchVideoInfo scenario_world scenario_fetch_ok)))"
    by (simp add: scenario_fetched_eq quality_options_def quality_items_def
          scenario_qualities_def)
qed

theorem fetch_keeps_selected_quality_witness:
  "url (app scenario_world) \<noteq> [] \<and>
   fetch_result scenario_fetch_ok = Resolved scenario_qualities \<and>
   listen_result scenario_download_ok = Resolved () \<and>
   availableQualities (app (handleFetchVideoInfo scenario_world scenario_fetch_ok)) =
     scenario_qualities \<and>
   filter is_invoke
     (new_effects (handleFetchVideoInfo scenario_world scenario_fetch_ok)
        (handleDownload (handleFetchVideoInfo scenario_world scenario_fetch_ok)
           scenario_download_ok)) =
     [Invoke (Download_media
        \<lparr> req_url = scenario_url, req_format = ''video+audio'', req_quality = ''best'',
          req_downloadPath = None \<rparr>)] \<and>
   ''best'' \<notin> set (quality_options
      (app (handleFetchVideoInfo scenario_world scenario_fetch_ok)))"
proof -
  have h1: "url (app scenario_world) \<noteq> []"
    by (simp add: scenario_world_eq scenario_url_def)
  have h2: "fetch_result scenario_fetch_ok = Resolved scenario_qualities"
    by (simp add: scenario_fetch_ok_def)
  have h3: "listen_result scenario_download_ok = Resolved ()"
    by (simp add: scenario_download_ok_def)
  have r: "download_request (app scenario_world) =
      \<lparr> req_url = scenario_url, req_format = ''video+audio'', req_quality = ''best'',
        req_downloadPath = None \<rparr>"
    by (simp add: scenario_world_eq download_request_def)
  have q: "quality (app scenario_world) = ''best''"
    by (simp add: scenario_world_eq)
  show ?thesis
    using h1 h2 h3
      fetch_keeps_selected_quality
        [of scenario_world scenario_fetch_ok scenario_qualities scenario_download_ok "()"]
    by (simp add: r q)
qed

end
